theory Spec2Isabelle
  imports Complex_Main "HOL-Library.Word"
begin

section \<open>Data model\<close>

text \<open>
  The recorder of \<^verbatim>\<open>RealtimeSTT/audio_recorder.py\<close> and its helpers in
  \<^verbatim>\<open>state_machine.py\<close> and \<^verbatim>\<open>vad.py\<close>. A chunk is a Python
  \<^verbatim>\<open>bytes\<close> value: a list of 8-bit words. Wall-clock readings and durations are
  Python floats; they are modelled as exact rationals, and every \<^verbatim>\<open>time.time()\<close>
  of one call is the one reading \<open>now\<close> handed to the model of that call.
\<close>

type_synonym bytes = "8 word list"
type_synonym int16 = "16 word"

subsection \<open>\<^verbatim>\<open>state_machine.py\<close>\<close>

datatype RecorderState = INACTIVE | LISTENING | WAKEWORD | RECORDING | TRANSCRIBING

text \<open>The \<^verbatim>\<open>.value\<close> of a member of the string enum.\<close>

fun state_value :: "RecorderState \<Rightarrow> string" where
  "state_value INACTIVE = ''inactive''"
| "state_value LISTENING = ''listening''"
| "state_value WAKEWORD = ''wakeword''"
| "state_value RECORDING = ''recording''"
| "state_value TRANSCRIBING = ''transcribing''"

text \<open>\<^verbatim>\<open>RecorderState(new_state)\<close>: lookup by value; \<open>None\<close> is the ValueError.\<close>

definition RecorderState_of :: "string \<Rightarrow> RecorderState option" where
  "RecorderState_of s =
     (if s = ''inactive'' then Some INACTIVE
      else if s = ''listening'' then Some LISTENING
      else if s = ''wakeword'' then Some WAKEWORD
      else if s = ''recording'' then Some RECORDING
      else if s = ''transcribing'' then Some TRANSCRIBING
      else None)"

text \<open>
  What the outside world sees of a call: the callbacks fired and the log lines written,
  in order. A callback is an opaque user function; the model records that it ran.
\<close>

datatype loglevel = DEBUG | INFO | WARNING | ERROR

datatype event =
    Cb_vad_detect_start
  | Cb_vad_detect_stop
  | Cb_wakeword_detection_start
  | Cb_wakeword_detection_end
  | Cb_transcription_start
  | Cb_recording_start
  | Cb_recording_stop
  | Cb_wakeword_detected
  | Cb_wakeword_timeout
  | Log loglevel string "string list"

text \<open>The Halo spinner object, as far as the recorder touches it.\<close>

record halo_obj =
  halo_text :: string
  halo_interval :: int
  halo_running :: bool

record StateCallbacks =
  cb_on_vad_detect_start :: bool
  cb_on_vad_detect_stop :: bool
  cb_on_wakeword_detection_start :: bool
  cb_on_wakeword_detection_end :: bool
  cb_on_transcription_start :: bool

subsection \<open>The recorder object\<close>

text \<open>
  The fields of \<^verbatim>\<open>AudioToTextRecorder\<close> that the modelled methods read or write.
  A callback field holds whether a callback is registered. The events
  \<^verbatim>\<open>start_recording_event\<close> and \<^verbatim>\<open>stop_recording_event\<close> hold whether they are set.
  \<open>sent\<close> lists the requests handed to \<^verbatim>\<open>transcriber.send\<close>, oldest first.
\<close>

record recorder =
  state :: string
  halo :: "halo_obj option"
  spinner :: bool
  wake_words :: string
  on_vad_detect_start :: bool
  on_vad_detect_stop :: bool
  on_wakeword_detection_start :: bool
  on_wakeword_detection_end :: bool
  on_transcription_start :: bool
  on_recording_start :: bool
  on_recording_stop :: bool
  on_wakeword_detected :: bool
  on_wakeword_timeout :: bool
  sample_rate :: int
  language :: string
  is_recording :: bool
  frames :: "bytes list"
  last_frames :: "bytes list"
  audio_buffer :: "bytes list"
  audio_buffer_maxlen :: nat
  audio :: "rat list"
  text_storage :: "string list"
  backdate_stop_seconds :: rat
  backdate_resume_seconds :: rat
  recording_start_time :: rat
  recording_stop_time :: rat
  last_recording_start_time :: rat
  last_recording_stop_time :: rat
  min_length_of_recording :: rat
  min_gap_between_recordings :: rat
  listen_start :: rat
  is_silero_speech_active :: bool
  is_webrtc_speech_active :: bool
  silero_working :: bool
  silero_check_time :: rat
  silero_sensitivity :: rat
  silero_deactivity_detection :: bool
  start_recording_event :: bool
  stop_recording_event :: bool
  start_recording_on_voice_activity :: bool
  stop_recording_on_voice_deactivity :: bool
  speech_end_silence_start :: rat
  post_speech_silence_duration :: rat
  early_transcription_on_silence :: rat
  allowed_to_early_transcribe :: bool
  use_wake_words :: bool
  wakeword_detected :: bool
  wake_word_detect_time :: rat
  wake_word_activation_delay :: rat
  wake_word_timeout :: rat
  wake_word_buffer_duration :: rat
  transcribe_count :: int
  sent :: "(rat list \<times> string) list"
  trace :: "event list"

definition fire :: "bool \<Rightarrow> event \<Rightarrow> recorder \<Rightarrow> recorder" where
  "fire registered e r = (if registered then r\<lparr>trace := trace r @ [e]\<rparr> else r)"

definition log :: "loglevel \<Rightarrow> string \<Rightarrow> string list \<Rightarrow> recorder \<Rightarrow> recorder" where
  "log lvl msg args r = r\<lparr>trace := trace r @ [Log lvl msg args]\<rparr>"

text \<open>
  \<^verbatim>\<open>_set_spinner\<close>: with the spinner enabled, create and start a Halo with the text
  when there is none, else replace the text of the one there is. A new Halo has the
  library's default interval, \<open>-1\<close>.
\<close>

definition set_spinner :: "recorder \<Rightarrow> string \<Rightarrow> recorder" where
  "set_spinner r txt =
     (if spinner r then
        (case halo r of
           None \<Rightarrow> r\<lparr>halo := Some \<lparr>halo_text = txt, halo_interval = -1, halo_running = True\<rparr>\<rparr>
         | Some h \<Rightarrow> r\<lparr>halo := Some (h\<lparr>halo_text := txt\<rparr>)\<rparr>)
      else r)"

text \<open>
  The local \<^verbatim>\<open>halo\<close> of \<^verbatim>\<open>transition_state\<close> is read before \<^verbatim>\<open>_set_spinner\<close> runs:
  when it was \<^verbatim>\<open>None\<close> no interval is written, also when \<^verbatim>\<open>_set_spinner\<close> has just
  created a spinner; when it was an object, that object is the owner's, and the write
  lands on the owner's spinner.
\<close>

definition set_interval :: "bool \<Rightarrow> halo_obj option \<Rightarrow> int \<Rightarrow> recorder \<Rightarrow> recorder" where
  "set_interval spinner_enabled old_halo n r =
     (if spinner_enabled \<and> old_halo \<noteq> None then
        (case halo r of
           None \<Rightarrow> r
         | Some h \<Rightarrow> r\<lparr>halo := Some (h\<lparr>halo_interval := n\<rparr>)\<rparr>)
      else r)"

definition transition_state ::
  "recorder \<Rightarrow> RecorderState \<Rightarrow> StateCallbacks \<Rightarrow> bool \<Rightarrow> string \<Rightarrow> recorder" where
  "transition_state owner new_state callbacks spinner_enabled wake_words_arg =
     (let old_state = state owner in
      if old_state = state_value new_state then owner
      else
        let r1 = owner\<lparr>state := state_value new_state\<rparr>;
            r2 = log INFO ''State changed from %s to %s''
                   [old_state, state_value new_state] r1;
            r3 = (if old_state = state_value LISTENING
                  then fire (cb_on_vad_detect_stop callbacks) Cb_vad_detect_stop r2
                  else if old_state = state_value WAKEWORD
                  then fire (cb_on_wakeword_detection_end callbacks) Cb_wakeword_detection_end r2
                  else r2);
            old_halo = halo r3
        in (case new_state of
              LISTENING \<Rightarrow>
                set_interval spinner_enabled old_halo 250
                  (set_spinner
                     (fire (cb_on_vad_detect_start callbacks) Cb_vad_detect_start r3)
                     ''speak now'')
            | WAKEWORD \<Rightarrow>
                set_interval spinner_enabled old_halo 500
                  (set_spinner
                     (fire (cb_on_wakeword_detection_start callbacks)
                        Cb_wakeword_detection_start r3)
                     (''say '' @ wake_words_arg))
            | TRANSCRIBING \<Rightarrow>
                set_interval spinner_enabled old_halo 50
                  (set_spinner
                     (fire (cb_on_transcription_start callbacks) Cb_transcription_start r3)
                     ''transcribing'')
            | RECORDING \<Rightarrow>
                set_interval spinner_enabled old_halo 100 (set_spinner r3 ''recording'')
            | INACTIVE \<Rightarrow>
                (if spinner_enabled \<and> old_halo \<noteq> None then r3\<lparr>halo := None\<rparr> else r3)))"

text \<open>
  \<^verbatim>\<open>_set_state\<close>: an argument that is no member of the enum takes the
  \<^verbatim>\<open>except ValueError\<close> branch, which logs a warning and stores the argument.
\<close>

definition set_state :: "recorder \<Rightarrow> string \<Rightarrow> recorder" where
  "set_state r new_state =
     (case RecorderState_of new_state of
        None \<Rightarrow>
          (log WARNING ''Unknown state %s, keeping legacy behaviour'' [new_state] r)
            \<lparr>state := new_state\<rparr>
      | Some state_enum \<Rightarrow>
          transition_state r state_enum
            \<lparr>cb_on_vad_detect_start = on_vad_detect_start r,
             cb_on_vad_detect_stop = on_vad_detect_stop r,
             cb_on_wakeword_detection_start = on_wakeword_detection_start r,
             cb_on_wakeword_detection_end = on_wakeword_detection_end r,
             cb_on_transcription_start = on_transcription_start r\<rparr>
            (spinner r) (wake_words r))"

subsection \<open>Construction\<close>

text \<open>
  Python's \<^verbatim>\<open>int(x)\<close> on a float: truncation towards zero. The float product under it
  is modelled as the exact product.
\<close>

definition py_int :: "rat \<Rightarrow> int" where
  "py_int x = (if 0 \<le> x then \<lfloor>x\<rfloor> else \<lceil>x\<rceil>)"

text \<open>
  The capacity of the pre-roll deque,
  \<^verbatim>\<open>int((self.sample_rate // self.buffer_size) * self.pre_recording_buffer_duration)\<close>;
  \<open>None\<close> is the ZeroDivisionError of \<^verbatim>\<open>//\<close> or the ValueError of a negative
  \<^verbatim>\<open>maxlen\<close>.
\<close>

definition audio_buffer_capacity :: "int \<Rightarrow> int \<Rightarrow> rat \<Rightarrow> nat option" where
  "audio_buffer_capacity rate buffer_size pre_recording_buffer_duration =
     (if buffer_size = 0 then None
      else let n = py_int (of_int (rate div buffer_size) * pre_recording_buffer_duration)
           in if n < 0 then None else Some (nat n))"

text \<open>
  The object \<^verbatim>\<open>__init__\<close> leaves behind when called with a sample rate, a buffer size
  and a pre-roll duration and the defaults for everything else (no callbacks, no wake
  words), once the recording worker has run its prologue.
\<close>

definition new_recorder :: "int \<Rightarrow> int \<Rightarrow> rat \<Rightarrow> recorder option" where
  "new_recorder rate buffer_size pre_recording_buffer_duration =
     map_option (\<lambda>cap.
       \<lparr>state = state_value INACTIVE, halo = None, spinner = True, wake_words = [],
        on_vad_detect_start = False, on_vad_detect_stop = False,
        on_wakeword_detection_start = False, on_wakeword_detection_end = False,
        on_transcription_start = False, on_recording_start = False,
        on_recording_stop = False, on_wakeword_detected = False,
        on_wakeword_timeout = False,
        sample_rate = rate, language = ''auto'', is_recording = False,
        frames = [], last_frames = [], audio_buffer = [], audio_buffer_maxlen = cap,
        audio = [], text_storage = [],
        backdate_stop_seconds = 0, backdate_resume_seconds = 0,
        recording_start_time = 0, recording_stop_time = 0,
        last_recording_start_time = 0, last_recording_stop_time = 0,
        min_length_of_recording = 1 / 2, min_gap_between_recordings = 0,
        listen_start = 0,
        is_silero_speech_active = False, is_webrtc_speech_active = False,
        silero_working = False, silero_check_time = 0, silero_sensitivity = 2 / 5,
        silero_deactivity_detection = False,
        start_recording_event = False, stop_recording_event = False,
        start_recording_on_voice_activity = False,
        stop_recording_on_voice_deactivity = False,
        speech_end_silence_start = 0, post_speech_silence_duration = 3 / 5,
        early_transcription_on_silence = 0, allowed_to_early_transcribe = True,
        use_wake_words = False, wakeword_detected = False, wake_word_detect_time = 0,
        wake_word_activation_delay = 0, wake_word_timeout = 5,
        wake_word_buffer_duration = 1 / 10,
        transcribe_count = 0, sent = [], trace = []\<rparr>)
       (audio_buffer_capacity rate buffer_size pre_recording_buffer_duration)"

text \<open>The recorder built with every default: 16 kHz, 512 samples a chunk, 1 s of pre-roll.\<close>

definition default_recorder :: recorder where
  "default_recorder = the (new_recorder 16000 512 1)"

subsection \<open>PCM conversions\<close>

text \<open>
  \<^verbatim>\<open>np.frombuffer(chunk, dtype=np.int16)\<close> reads little-endian 16-bit samples and raises
  ValueError on an odd number of bytes; \<^verbatim>\<open>tobytes\<close> is its inverse.
\<close>

fun frombuffer_int16 :: "bytes \<Rightarrow> int16 list option" where
  "frombuffer_int16 [] = Some []"
| "frombuffer_int16 [b] = None"
| "frombuffer_int16 (lo # hi # bs) =
     map_option ((#) (word_cat hi lo)) (frombuffer_int16 bs)"

fun tobytes :: "int16 list \<Rightarrow> bytes" where
  "tobytes [] = []"
| "tobytes (w # ws) = ucast w # ucast (drop_bit 8 w) # tobytes ws"

text \<open>
  \<^verbatim>\<open>pcm.astype(np.float32) / INT16_MAX_ABS_VALUE\<close>: a 16-bit sample over 32768, which a
  float32 holds exactly.
\<close>

definition normalize_int16 :: "int16 list \<Rightarrow> rat list" where
  "normalize_int16 pcm = map (\<lambda>w. of_int (sint w) / 32768) pcm"

subsection \<open>\<^verbatim>\<open>vad.py\<close>\<close>

text \<open>
  The engines behind the two gates are parameters. \<open>resampler\<close> stands for
  \<^verbatim>\<open>signal.resample_poly(pcm, 16000, rate).astype(np.int16)\<close> (\<open>None\<close> when it raises);
  a fast-gate model answers for one 10 ms frame; a confirm model returns a probability
  for a normalised chunk, or raises (\<open>None\<close>).
\<close>

type_synonym resampler = "int16 list \<Rightarrow> int \<Rightarrow> int16 list option"
type_synonym WebRtcVadModel = "bytes \<Rightarrow> bool"
type_synonym SileroVadModel = "rat list \<Rightarrow> rat option"

record VadConfig =
  cfg_sample_rate :: int
  cfg_silero_sensitivity :: rat

definition silero_is_speech ::
  "resampler \<Rightarrow> SileroVadModel \<Rightarrow> bytes \<Rightarrow> VadConfig \<Rightarrow> bool option" where
  "silero_is_speech resample model chunk cfg =
     (case frombuffer_int16 chunk of
        None \<Rightarrow> None
      | Some pcm_data \<Rightarrow>
          (case (if cfg_sample_rate cfg \<noteq> 16000 then resample pcm_data (cfg_sample_rate cfg)
                 else Some pcm_data) of
             None \<Rightarrow> None
           | Some pcm_16k \<Rightarrow>
               (case model (normalize_int16 pcm_16k) of
                  None \<Rightarrow> None
                | Some vad_prob \<Rightarrow> Some (vad_prob > 1 - cfg_silero_sensitivity cfg))))"

text \<open>The first block of \<^verbatim>\<open>webrtc_is_speech\<close>: the chunk at 16 kHz.\<close>

definition chunk_16k :: "resampler \<Rightarrow> bytes \<Rightarrow> int \<Rightarrow> bytes option" where
  "chunk_16k resample chunk rate =
     (if rate \<noteq> 16000 then
        (case frombuffer_int16 chunk of
           None \<Rightarrow> None
         | Some pcm_data \<Rightarrow> map_option tobytes (resample pcm_data rate))
      else Some chunk)"

text \<open>\<^verbatim>\<open>frame_length = int(16000 * 0.01)\<close>, in samples.\<close>

definition frame_length :: nat where
  "frame_length = 160"

text \<open>
  The \<^verbatim>\<open>for i in range(num_frames)\<close> loop with its counter \<^verbatim>\<open>speech_frames\<close>, and the
  two returns after it.
\<close>

function frames_loop ::
  "WebRtcVadModel \<Rightarrow> bytes \<Rightarrow> bool \<Rightarrow> nat \<Rightarrow> nat \<Rightarrow> nat \<Rightarrow> bool" where
  "frames_loop model chunk all_frames_must_be_true num_frames i speech_frames =
     (if i < num_frames then
        (let start_byte = i * frame_length * 2;
             end_byte = start_byte + frame_length * 2;
             frame = take (end_byte - start_byte) (drop start_byte chunk)
         in if model frame then
              (if \<not> all_frames_must_be_true then True
               else frames_loop model chunk all_frames_must_be_true num_frames (i + 1)
                      (speech_frames + 1))
            else frames_loop model chunk all_frames_must_be_true num_frames (i + 1)
                   speech_frames)
      else if all_frames_must_be_true then speech_frames = num_frames
      else False)"
  by pat_completeness auto
termination
  by (relation "measure (\<lambda>(model, chunk, a, num_frames, i, speech_frames). num_frames - i)")
     auto

declare frames_loop.simps [simp del]

definition webrtc_is_speech ::
  "resampler \<Rightarrow> WebRtcVadModel \<Rightarrow> bytes \<Rightarrow> int \<Rightarrow> bool \<Rightarrow> bool option" where
  "webrtc_is_speech resample model chunk rate all_frames_must_be_true =
     (case chunk_16k resample chunk rate of
        None \<Rightarrow> None
      | Some c \<Rightarrow>
          (let num_frames = length c div (2 * frame_length)
           in if num_frames = 0 then Some False
              else Some (frames_loop model c all_frames_must_be_true num_frames 0 0)))"

text \<open>The consecutive complete 10 ms frames of a 16 kHz chunk, first to last.\<close>

definition frames_10ms :: "bytes \<Rightarrow> bytes list" where
  "frames_10ms c = map (\<lambda>i. take 320 (drop (i * 320) c)) [0..<length c div 320]"

text \<open>The samples the confirm gate hands to its model: the chunk decoded, at 16 kHz.\<close>

definition pcm_16k :: "resampler \<Rightarrow> bytes \<Rightarrow> int \<Rightarrow> int16 list option" where
  "pcm_16k resample chunk rate =
     (case frombuffer_int16 chunk of
        None \<Rightarrow> None
      | Some pcm_data \<Rightarrow> if rate \<noteq> 16000 then resample pcm_data rate else Some pcm_data)"

subsection \<open>\<^verbatim>\<open>start\<close>, \<^verbatim>\<open>stop\<close>, \<^verbatim>\<open>listen\<close>\<close>

text \<open>
  \<^verbatim>\<open>start(frames=None)\<close>. A call less than \<^verbatim>\<open>min_gap_between_recordings\<close> after the
  last stop only logs.
\<close>

definition start :: "recorder \<Rightarrow> rat \<Rightarrow> bytes list option \<Rightarrow> recorder" where
  "start r now frames_arg =
     (if now - recording_stop_time r < min_gap_between_recordings r then
        log INFO ''Attempted to start recording too soon after stopping.'' [] r
      else
        let r1 = log INFO ''recording started'' [] r;
            r2 = set_state r1 (state_value RECORDING);
            r3 = r2\<lparr>text_storage := [],
                    wakeword_detected := False,
                    wake_word_detect_time := 0,
                    frames := (case frames_arg of None \<Rightarrow> [] | Some fs \<Rightarrow> fs),
                    is_recording := True,
                    recording_start_time := now,
                    is_silero_speech_active := False,
                    is_webrtc_speech_active := False,
                    stop_recording_event := False,
                    start_recording_event := True\<rparr>
        in fire (on_recording_start r3) Cb_recording_start r3)"

text \<open>
  \<^verbatim>\<open>stop(backdate_stop_seconds, backdate_resume_seconds)\<close>. A call less than
  \<^verbatim>\<open>min_length_of_recording\<close> after the start only logs.
\<close>

definition stop :: "recorder \<Rightarrow> rat \<Rightarrow> rat \<Rightarrow> rat \<Rightarrow> recorder" where
  "stop r now backdate_stop backdate_resume =
     (if now - recording_start_time r < min_length_of_recording r then
        log INFO ''Attempted to stop recording too soon after starting.'' [] r
      else
        let r1 = log INFO ''recording stopped'' [] r;
            r2 = r1\<lparr>last_frames := frames r1,
                    backdate_stop_seconds := backdate_stop,
                    backdate_resume_seconds := backdate_resume,
                    is_recording := False,
                    recording_stop_time := now,
                    is_silero_speech_active := False,
                    is_webrtc_speech_active := False,
                    silero_check_time := 0,
                    start_recording_event := False,
                    stop_recording_event := True,
                    last_recording_start_time := recording_start_time r1,
                    last_recording_stop_time := now\<rparr>
        in fire (on_recording_stop r2) Cb_recording_stop r2)"


subsection \<open>Padding and submission\<close>

text \<open>
  \<^verbatim>\<open>_add_padding_to_audio(audio, padding_duration)\<close>; \<open>None\<close> is the ValueError of
  \<^verbatim>\<open>np.zeros\<close> on a negative length.
\<close>

definition add_padding_to_audio :: "recorder \<Rightarrow> rat list \<Rightarrow> rat \<Rightarrow> rat list option" where
  "add_padding_to_audio r audio_arg padding_duration =
     (let n = py_int (of_int (sample_rate r) * padding_duration)
      in if n < 0 then None
         else Some (replicate (nat n) 0 @ audio_arg @ replicate (nat n) 0))"

text \<open>
  \<^verbatim>\<open>transcribe\<close>, from its first line to the end of the block that sends the request;
  what follows in the source polls the channel for the answer.
\<close>

definition transcribe_submit :: "recorder \<Rightarrow> recorder option" where
  "transcribe_submit r =
     (let r1 = set_state r (state_value TRANSCRIBING);
          audio_copy = audio r1
      in if transcribe_count r1 = 0 then
           (case add_padding_to_audio r1 audio_copy 1 of
              None \<Rightarrow> None
            | Some padded \<Rightarrow>
                Some ((log DEBUG
                         ''Adding transcription request, no early transcription started''
                         [] r1)
                        \<lparr>sent := sent r1 @ [(padded, language r1)],
                         transcribe_count := transcribe_count r1 + 1\<rparr>))
         else Some r1)"

text \<open>
  The early submission inside the recording worker (the body of the
  \<^verbatim>\<open>early_transcription_on_silence\<close> branch).
\<close>

definition early_transcribe :: "recorder \<Rightarrow> recorder option" where
  "early_transcribe r =
     (let r1 = r\<lparr>transcribe_count := transcribe_count r + 1\<rparr>
      in case frombuffer_int16 (concat (frames r1)) of
           None \<Rightarrow> None
         | Some audio_array \<Rightarrow>
             (case add_padding_to_audio r1 (normalize_int16 audio_array) 1 of
                None \<Rightarrow> None
              | Some padded \<Rightarrow>
                  Some (r1\<lparr>sent := sent r1 @ [(padded, language r1)],
                           allowed_to_early_transcribe := False\<rparr>)))"

subsection \<open>Assembling the utterance in \<^verbatim>\<open>wait_audio\<close>\<close>

text \<open>
  \<^verbatim>\<open>(x * INT16_MAX_ABS_VALUE).astype(np.int16)\<close> on a list of normalised samples.
\<close>

definition denormalize_int16 :: "rat list \<Rightarrow> int16 list" where
  "denormalize_int16 xs = map (\<lambda>x. word_of_int (py_int (x * 32768))) xs"


definition FRAME_SIZE :: nat where
  "FRAME_SIZE = 2048"

text \<open>
  \<^verbatim>\<open>for i in range(0, len(frame_bytes), FRAME_SIZE)\<close>, collecting the non-empty slices.
\<close>

function split_frames :: "bytes \<Rightarrow> nat \<Rightarrow> bytes list" where
  "split_frames frame_bytes i =
     (if i < length frame_bytes then
        (let frame = take FRAME_SIZE (drop i frame_bytes)
         in (if frame \<noteq> [] then [frame] else []) @ split_frames frame_bytes (i + FRAME_SIZE))
      else [])"
  by pat_completeness auto
termination
  by (relation "measure (\<lambda>(frame_bytes, i). length frame_bytes - i)")
     (auto simp: FRAME_SIZE_def)

declare split_frames.simps [simp del]


subsection \<open>The recording worker\<close>

text \<open>
  The wake-word stripping loop,
  \<^verbatim>\<open>while wakeword_samples_to_remove > 0 and self.frames\<close>. Its second branch assigns
  \<^verbatim>\<open>samples_to_remove = 0\<close>, a name the loop condition does not read, so
  \<^verbatim>\<open>wakeword_samples_to_remove\<close> is as it was when the loop tests it again.
\<close>

function strip_wakeword_loop :: "int \<Rightarrow> bytes list \<Rightarrow> int \<times> bytes list" where
  "strip_wakeword_loop wakeword_samples_to_remove fs =
     (if wakeword_samples_to_remove > 0 \<and> fs \<noteq> [] then
        (let frame = hd fs;
             frame_samples = int (length frame div 2)
         in if wakeword_samples_to_remove \<ge> frame_samples then
              strip_wakeword_loop (wakeword_samples_to_remove - frame_samples) (tl fs)
            else
              strip_wakeword_loop wakeword_samples_to_remove
                (drop (nat (wakeword_samples_to_remove * 2)) frame # tl fs))
      else (wakeword_samples_to_remove, fs))"
  by pat_completeness auto
termination
proof (relation "measure (\<lambda>(n, fs). length (concat fs) + length fs)", goal_cases)
  case 1
  show ?case by simp
next
  case (2 n fs frame frame_samples)
  then show ?case by (cases fs) auto
next
  case (3 n fs frame frame_samples)
  then show ?case by (cases fs) auto
qed

declare strip_wakeword_loop.simps [simp del]

text \<open>\<^verbatim>\<open>deque.append\<close> on a deque with a \<^verbatim>\<open>maxlen\<close>: the oldest entries make room.\<close>

definition deque_append :: "nat \<Rightarrow> 'a list \<Rightarrow> 'a \<Rightarrow> 'a list" where
  "deque_append maxlen xs x = drop (length (xs @ [x]) - maxlen) (xs @ [x])"

text \<open>
  The engines a worker iteration consults, and what one iteration receives from outside:
  the chunk \<^verbatim>\<open>data\<close> left by the queue section at the top of the loop, the clock, and
  the answer of \<^verbatim>\<open>_process_wakeword(data)\<close> (which is \<open>-1\<close> without a detector and
  when the detector raises).
\<close>

record engines =
  eng_resample :: resampler
  eng_webrtc :: WebRtcVadModel
  eng_silero :: SileroVadModel

record step_input =
  in_data :: bytes
  in_now :: rat
  in_wakeword_index :: int

text \<open>The variables local to \<^verbatim>\<open>_recording_worker\<close> that live across iterations.\<close>

record worker_locals =
  time_since_last_buffer_message :: rat
  was_recording :: bool
  delay_was_passed :: bool
  wakeword_detected_time :: "rat option"
  wakeword_samples_to_remove :: "int option"

definition initial_locals :: worker_locals where
  "initial_locals =
     \<lparr>time_since_last_buffer_message = 0, was_recording = False, delay_was_passed = False,
      wakeword_detected_time = None, wakeword_samples_to_remove = None\<rparr>"

text \<open>
  The methods \<^verbatim>\<open>_is_silero_speech\<close> and \<^verbatim>\<open>_is_webrtc_speech\<close>: the pure check, and its
  answer stored on the recorder. \<open>None\<close> is an exception out of the check.
\<close>

definition is_silero_speech :: "engines \<Rightarrow> recorder \<Rightarrow> bytes \<Rightarrow> (recorder \<times> bool) option" where
  "is_silero_speech e r chunk =
     map_option (\<lambda>b. (r\<lparr>is_silero_speech_active := b, silero_working := False\<rparr>, b))
       (silero_is_speech (eng_resample e) (eng_silero e) chunk
          \<lparr>cfg_sample_rate = sample_rate r, cfg_silero_sensitivity = silero_sensitivity r\<rparr>)"

definition is_webrtc_speech ::
  "engines \<Rightarrow> recorder \<Rightarrow> bytes \<Rightarrow> bool \<Rightarrow> (recorder \<times> bool) option" where
  "is_webrtc_speech e r chunk all_frames_must_be_true =
     map_option (\<lambda>b. (r\<lparr>is_webrtc_speech_active := b\<rparr>, b))
       (webrtc_is_speech (eng_resample e) (eng_webrtc e) chunk (sample_rate r)
          all_frames_must_be_true)"

text \<open>
  \<^verbatim>\<open>_check_voice_activity\<close>. The confirm check runs on a thread of its own in the
  source; here it has finished when the method returns. A confirm check that raises
  ends its thread with the \<^verbatim>\<open>silero_working\<close> latch still set.
\<close>

definition check_voice_activity :: "engines \<Rightarrow> recorder \<Rightarrow> bytes \<Rightarrow> recorder option" where
  "check_voice_activity e r data =
     (case is_webrtc_speech e r data False of
        None \<Rightarrow> None
      | Some (r1, _) \<Rightarrow>
          Some (if is_webrtc_speech_active r1 \<and> \<not> silero_working r1 then
                  (case is_silero_speech e (r1\<lparr>silero_working := True\<rparr>) data of
                     None \<Rightarrow> r1\<lparr>silero_working := True\<rparr>
                   | Some (r2, _) \<Rightarrow> r2)
                else r1))"

definition is_voice_active :: "recorder \<Rightarrow> bool" where
  "is_voice_active r = (is_webrtc_speech_active r \<and> is_silero_speech_active r)"

text \<open>
  The branch \<^verbatim>\<open>if not self.is_recording\<close> of one iteration, in two stages. The first
  runs from \<^verbatim>\<open>time_since_listen_start\<close> to the end of the wake-word block and yields
  \<^verbatim>\<open>wake_word_activation_delay_passed\<close> with the locals and the recorder.
\<close>

definition wakeword_stage ::
  "worker_locals \<Rightarrow> recorder \<Rightarrow> step_input \<Rightarrow> bool \<times> worker_locals \<times> recorder" where
  "wakeword_stage l r inp =
     (let time_since_listen_start =
            (if listen_start r \<noteq> 0 then in_now inp - listen_start r else 0);
          wake_word_activation_delay_passed =
            (time_since_listen_start > wake_word_activation_delay r);
          r1 = (if wake_word_activation_delay_passed \<and> \<not> delay_was_passed l
                   \<and> use_wake_words r \<and> wake_word_activation_delay r \<noteq> 0
                then fire (on_wakeword_timeout r) Cb_wakeword_timeout r else r);
          l1 = l\<lparr>delay_was_passed := wake_word_activation_delay_passed\<rparr>;
          r2 = (if recording_stop_time r1 = 0 then
                  (if use_wake_words r1 \<and> wake_word_activation_delay_passed
                      \<and> \<not> wakeword_detected r1
                   then set_state r1 ''wakeword''
                   else if listen_start r1 \<noteq> 0 then set_state r1 ''listening''
                   else set_state r1 ''inactive'')
                else r1);
          detected = (use_wake_words r2 \<and> wake_word_activation_delay_passed
                        \<and> in_wakeword_index inp \<ge> 0);
          l2 = (if detected then
                  l1\<lparr>wakeword_detected_time := Some (in_now inp),
                     wakeword_samples_to_remove :=
                       Some (py_int (of_int (sample_rate r2) * wake_word_buffer_duration r2))\<rparr>
                else l1);
          r3 = (if detected then
                  fire (on_wakeword_detected r2) Cb_wakeword_detected
                    (r2\<lparr>wake_word_detect_time := in_now inp, wakeword_detected := True\<rparr>)
                else r2)
      in (wake_word_activation_delay_passed, l2, r3))"

text \<open>
  The second stage: the check for voice activity that starts a recording, seeding its
  frames with the pre-roll buffer. The confirm model is a function here, so the
  \<^verbatim>\<open>reset_states()\<close> that follows the seeding has no counterpart.
\<close>

definition voice_stage :: "engines \<Rightarrow> recorder \<Rightarrow> bool \<Rightarrow> step_input \<Rightarrow> recorder option" where
  "voice_stage e r wake_word_activation_delay_passed inp =
     (if ((\<not> use_wake_words r \<or> \<not> wake_word_activation_delay_passed)
            \<and> start_recording_on_voice_activity r)
         \<or> wakeword_detected r then
        (if is_voice_active r then
           (let r1 = start (log INFO ''voice activity detected'' [] r) (in_now inp) None;
                r2 = r1\<lparr>start_recording_on_voice_activity := False\<rparr>;
                r3 = r2\<lparr>frames := frames r2 @ audio_buffer r2\<rparr>
            in Some (r3\<lparr>audio_buffer := []\<rparr>))
         else check_voice_activity e r (in_data inp))
      else Some r)"

definition not_recording_branch ::
  "engines \<Rightarrow> worker_locals \<Rightarrow> recorder \<Rightarrow> step_input \<Rightarrow> (worker_locals \<times> recorder) option"
  where
  "not_recording_branch e l r inp =
     (case wakeword_stage l r inp of
        (wake_word_activation_delay_passed, l1, r1) \<Rightarrow>
          (case voice_stage e r1 wake_word_activation_delay_passed inp of
             None \<Rightarrow> None
           | Some r2 \<Rightarrow> Some (l1, r2\<lparr>speech_end_silence_start := 0\<rparr>)))"

text \<open>
  The branch taken while recording. The third component of the result is
  \<^verbatim>\<open>failed_stop_attempt\<close>.
\<close>

definition strip_wakeword :: "worker_locals \<Rightarrow> recorder \<Rightarrow> worker_locals \<times> recorder" where
  "strip_wakeword l r =
     (case wakeword_samples_to_remove l of
        None \<Rightarrow> (l, r)
      | Some n \<Rightarrow>
          if n > 0 then
            (l\<lparr>wakeword_samples_to_remove := Some 0\<rparr>,
             r\<lparr>frames := snd (strip_wakeword_loop n (frames r))\<rparr>)
          else (l, r))"

definition on_silence :: "recorder \<Rightarrow> rat \<Rightarrow> recorder option" where
  "on_silence r now =
     (let r1 = (if speech_end_silence_start r = 0
                   \<and> now - recording_start_time r > min_length_of_recording r
                then r\<lparr>speech_end_silence_start := now\<rparr> else r)
      in if speech_end_silence_start r1 \<noteq> 0 \<and> early_transcription_on_silence r1 \<noteq> 0
            \<and> length (frames r1) > 0
            \<and> now - speech_end_silence_start r1 > early_transcription_on_silence r1
            \<and> allowed_to_early_transcribe r1
         then early_transcribe r1 else Some r1)"

definition on_speech :: "recorder \<Rightarrow> recorder" where
  "on_speech r =
     (if speech_end_silence_start r \<noteq> 0
      then r\<lparr>speech_end_silence_start := 0, allowed_to_early_transcribe := True\<rparr> else r)"

definition recording_branch ::
  "engines \<Rightarrow> worker_locals \<Rightarrow> recorder \<Rightarrow> step_input
     \<Rightarrow> (worker_locals \<times> recorder \<times> bool) option" where
  "recording_branch e l r inp =
     (let (l1, r1) = strip_wakeword l r
      in if stop_recording_on_voice_deactivity r1 then
           (case (if silero_deactivity_detection r1 then is_silero_speech e r1 (in_data inp)
                  else is_webrtc_speech e r1 (in_data inp) True) of
              None \<Rightarrow> None
            | Some (r2, is_speech) \<Rightarrow>
                (case (if \<not> is_speech then on_silence r2 (in_now inp)
                       else Some (on_speech r2)) of
                   None \<Rightarrow> None
                 | Some r3 \<Rightarrow>
                     if speech_end_silence_start r3 \<noteq> 0
                        \<and> in_now inp - speech_end_silence_start r3
                             \<ge> post_speech_silence_duration r3
                     then
                       (let r4 = stop (r3\<lparr>frames := frames r3 @ [in_data inp]\<rparr>)
                                   (in_now inp) 0 0
                        in if \<not> is_recording r4
                           then Some (l1, r4\<lparr>speech_end_silence_start := 0\<rparr>, False)
                           else Some (l1, r4, True))
                     else Some (l1, r3, False)))
         else Some (l1, r1, False))"

text \<open>
  What follows the two branches, to the end of the loop body: first the three blocks
  that settle flags and timers, then the two appends.
\<close>

definition settle_flags :: "worker_locals \<Rightarrow> recorder \<Rightarrow> step_input \<Rightarrow> recorder" where
  "settle_flags l r inp =
     (let r1 = (if \<not> is_recording r \<and> was_recording l
                then r\<lparr>stop_recording_on_voice_deactivity := False\<rparr> else r);
          r2 = (if in_now inp - silero_check_time r1 > 1 / 10
                then r1\<lparr>silero_check_time := 0\<rparr> else r1)
      in if wake_word_detect_time r2 \<noteq> 0
            \<and> in_now inp - wake_word_detect_time r2 > wake_word_timeout r2
         then
           (fire (wakeword_detected r2 \<and> on_wakeword_timeout r2) Cb_wakeword_timeout
              (r2\<lparr>wake_word_detect_time := 0\<rparr>))\<lparr>wakeword_detected := False\<rparr>
         else r2)"

definition step_tail ::
  "worker_locals \<Rightarrow> recorder \<Rightarrow> bool \<Rightarrow> step_input \<Rightarrow> worker_locals \<times> recorder" where
  "step_tail l r failed_stop_attempt inp =
     (let r3 = settle_flags l r inp;
          l1 = l\<lparr>was_recording := is_recording r3\<rparr>;
          r4 = (if is_recording r3 \<and> \<not> failed_stop_attempt
                then r3\<lparr>frames := frames r3 @ [in_data inp]\<rparr> else r3);
          r5 = (if \<not> is_recording r4 \<or> speech_end_silence_start r4 \<noteq> 0
                then r4\<lparr>audio_buffer :=
                          deque_append (audio_buffer_maxlen r4) (audio_buffer r4) (in_data inp)\<rparr>
                else r4)
      in (l1, r5))"

text \<open>
  One iteration of \<^verbatim>\<open>while self.is_running\<close>, from the update of
  \<^verbatim>\<open>time_since_last_buffer_message\<close> on. \<open>None\<close> is an exception that leaves the loop.
\<close>

definition buffer_message_tick :: "worker_locals \<Rightarrow> step_input \<Rightarrow> worker_locals" where
  "buffer_message_tick l inp =
     (if time_since_last_buffer_message l \<noteq> 0 then
        (if in_now inp - time_since_last_buffer_message l > 1
         then l\<lparr>time_since_last_buffer_message := in_now inp\<rparr> else l)
      else l\<lparr>time_since_last_buffer_message := in_now inp\<rparr>)"

definition recording_worker_step ::
  "engines \<Rightarrow> worker_locals \<times> recorder \<Rightarrow> step_input \<Rightarrow> (worker_locals \<times> recorder) option"
  where
  "recording_worker_step e lr inp =
     (let l = fst lr; r = snd lr;
          l0 = buffer_message_tick l inp
      in if \<not> is_recording r then
           (case not_recording_branch e l0 r inp of
              None \<Rightarrow> None
            | Some (l1, r1) \<Rightarrow> Some (step_tail l1 r1 False inp))
         else
           (case recording_branch e l0 r inp of
              None \<Rightarrow> None
            | Some (l1, r1, failed_stop_attempt) \<Rightarrow>
                Some (step_tail l1 r1 failed_stop_attempt inp)))"






text \<open>
  A recorder in the middle of a recording that began at 1 s: one sample (0.5) is
  recorded, stop-on-silence is armed, the silence timer runs since 5 s, and early
  transcription is due after 0.2 s of silence.
\<close>

definition silent_recorder :: recorder where
  "silent_recorder =
     default_recorder\<lparr>is_recording := True, state := ''recording'',
       frames := [[0, 64]], recording_start_time := 1,
       stop_recording_on_voice_deactivity := True,
       speech_end_silence_start := 5, early_transcription_on_silence := 1 / 5\<rparr>"


text \<open>
  The configuration those iterations keep while the recorder listens: armed for voice
  activity, no wake words, no earlier recording, the confirm latch free.
\<close>

definition listening_cfg :: "recorder \<Rightarrow> bool" where
  "listening_cfg r =
     (\<not> is_recording r \<and> \<not> use_wake_words r \<and> start_recording_on_voice_activity r
      \<and> sample_rate r = 16000 \<and> 0 < silero_sensitivity r \<and> \<not> silero_working r
      \<and> recording_stop_time r = 0 \<and> min_gap_between_recordings r = 0
      \<and> wake_word_detect_time r = 0 \<and> \<not> wakeword_detected r
      \<and> \<not> stop_recording_on_voice_deactivity r)"

text \<open>
  A call that touches nothing but what the user is shown: the state string, the spinner
  and the trace.
\<close>

definition only_display :: "recorder \<Rightarrow> recorder \<Rightarrow> bool" where
  "only_display r r' = (r' = r\<lparr>state := state r', halo := halo r', trace := trace r'\<rparr>)"

section \<open>Frame properties\<close>

lemma RecorderState_of_value [simp]: "RecorderState_of (state_value s) = Some s"
  by (cases s) (simp_all add: RecorderState_of_def)

lemma only_display_refl: "only_display r r"
  by (simp add: only_display_def)

lemma only_display_trans:
  "only_display a b \<Longrightarrow> only_display b c \<Longrightarrow> only_display a c"
proof -
  assume ab: "only_display a b" and bc: "only_display b c"
  have "c = b\<lparr>state := state c, halo := halo c, trace := trace c\<rparr>"
    using bc by (simp add: only_display_def)
  also have "b = a\<lparr>state := state b, halo := halo b, trace := trace b\<rparr>"
    using ab by (simp add: only_display_def)
  finally show ?thesis by (simp add: only_display_def)
qed

lemma only_display_log: "only_display r (log lvl m args r)"
  by (simp add: only_display_def log_def)

lemma only_display_fire: "only_display r (fire b ev r)"
  by (simp add: only_display_def fire_def)

lemma only_display_set_spinner: "only_display r (set_spinner r t)"
  by (simp add: only_display_def set_spinner_def split: option.splits)

lemma only_display_set_interval: "only_display r (set_interval sp h n r)"
  by (simp add: only_display_def set_interval_def split: option.splits)

lemma only_display_state_upd: "only_display r (r\<lparr>state := x\<rparr>)"
  by (simp add: only_display_def)

lemma only_display_halo_upd: "only_display r (r\<lparr>halo := x\<rparr>)"
  by (simp add: only_display_def)

lemmas od = only_display_refl only_display_log only_display_fire only_display_set_spinner
  only_display_set_interval only_display_state_upd only_display_halo_upd



lemma od_log_then: "only_display r a \<Longrightarrow> only_display r (log lvl m args a)"
  by (rule only_display_trans [OF _ only_display_log])

lemma od_fire_then: "only_display r a \<Longrightarrow> only_display r (fire b ev a)"
  by (rule only_display_trans [OF _ only_display_fire])

lemma od_set_spinner_then: "only_display r a \<Longrightarrow> only_display r (set_spinner a t)"
  by (rule only_display_trans [OF _ only_display_set_spinner])

lemma od_set_interval_then: "only_display r a \<Longrightarrow> only_display r (set_interval sp h n a)"
  by (rule only_display_trans [OF _ only_display_set_interval])

lemma od_state_then: "only_display r a \<Longrightarrow> only_display r (a\<lparr>state := x\<rparr>)"
  by (rule only_display_trans [OF _ only_display_state_upd])

lemma od_halo_then: "only_display r a \<Longrightarrow> only_display r (a\<lparr>halo := x\<rparr>)"
  by (rule only_display_trans [OF _ only_display_halo_upd])

lemmas od_then = od_log_then od_fire_then od_set_spinner_then od_set_interval_then
  od_state_then od_halo_then only_display_refl

lemma only_display_transition_state: "only_display r (transition_state r s cbs sp ww)"
  unfolding transition_state_def Let_def
  by (cases s) (simp_all add: od_then)

lemma only_display_set_state: "only_display r (set_state r s)"
  unfolding set_state_def
  by (cases "RecorderState_of s") (simp_all add: od_then only_display_transition_state)


lemma only_display_fields:
  assumes "only_display r r'"
  shows "spinner r' = spinner r
    \<and> wake_words r' = wake_words r
    \<and> on_vad_detect_start r' = on_vad_detect_start r
    \<and> on_vad_detect_stop r' = on_vad_detect_stop r
    \<and> on_wakeword_detection_start r' = on_wakeword_detection_start r
    \<and> on_wakeword_detection_end r' = on_wakeword_detection_end r
    \<and> on_transcription_start r' = on_transcription_start r
    \<and> on_recording_start r' = on_recording_start r
    \<and> on_recording_stop r' = on_recording_stop r
    \<and> on_wakeword_detected r' = on_wakeword_detected r
    \<and> on_wakeword_timeout r' = on_wakeword_timeout r
    \<and> sample_rate r' = sample_rate r
    \<and> language r' = language r
    \<and> is_recording r' = is_recording r
    \<and> frames r' = frames r
    \<and> last_frames r' = last_frames r
    \<and> audio_buffer r' = audio_buffer r
    \<and> audio_buffer_maxlen r' = audio_buffer_maxlen r
    \<and> audio r' = audio r
    \<and> text_storage r' = text_storage r
    \<and> backdate_stop_seconds r' = backdate_stop_seconds r
    \<and> backdate_resume_seconds r' = backdate_resume_seconds r
    \<and> recording_start_time r' = recording_start_time r
    \<and> recording_stop_time r' = recording_stop_time r
    \<and> last_recording_start_time r' = last_recording_start_time r
    \<and> last_recording_stop_time r' = last_recording_stop_time r
    \<and> min_length_of_recording r' = min_length_of_recording r
    \<and> min_gap_between_recordings r' = min_gap_between_recordings r
    \<and> listen_start r' = listen_start r
    \<and> is_silero_speech_active r' = is_silero_speech_active r
    \<and> is_webrtc_speech_active r' = is_webrtc_speech_active r
    \<and> silero_working r' = silero_working r
    \<and> silero_check_time r' = silero_check_time r
    \<and> silero_sensitivity r' = silero_sensitivity r
    \<and> silero_deactivity_detection r' = silero_deactivity_detection r
    \<and> start_recording_event r' = start_recording_event r
    \<and> stop_recording_event r' = stop_recording_event r
    \<and> start_recording_on_voice_activity r' = start_recording_on_voice_activity r
    \<and> stop_recording_on_voice_deactivity r' = stop_recording_on_voice_deactivity r
    \<and> speech_end_silence_start r' = speech_end_silence_start r
    \<and> post_speech_silence_duration r' = post_speech_silence_duration r
    \<and> early_transcription_on_silence r' = early_transcription_on_silence r
    \<and> allowed_to_early_transcribe r' = allowed_to_early_transcribe r
    \<and> use_wake_words r' = use_wake_words r
    \<and> wakeword_detected r' = wakeword_detected r
    \<and> wake_word_detect_time r' = wake_word_detect_time r
    \<and> wake_word_activation_delay r' = wake_word_activation_delay r
    \<and> wake_word_timeout r' = wake_word_timeout r
    \<and> wake_word_buffer_duration r' = wake_word_buffer_duration r
    \<and> transcribe_count r' = transcribe_count r
    \<and> sent r' = sent r"
proof -
  obtain a b c where "r' = r\<lparr>state := a, halo := b, trace := c\<rparr>"
    using assms unfolding only_display_def by blast
  then show ?thesis by simp
qed

lemmas set_state_fields [simp] = only_display_fields [OF only_display_set_state]
lemmas log_fields [simp] = only_display_fields [OF only_display_log]
lemmas fire_fields [simp] = only_display_fields [OF only_display_fire]

lemma state_transition_state [simp]:
  "state (transition_state r s cbs sp ww) = state_value s"
  unfolding transition_state_def Let_def
  by (cases s)
     (simp_all add: log_def fire_def set_spinner_def set_interval_def split: option.splits)

lemma state_set_state_value [simp]: "state (set_state r (state_value s)) = state_value s"
  by (simp add: set_state_def)

lemma py_int_of_int [simp]: "py_int (of_int k) = k"
  by (simp add: py_int_def)

section \<open>State changes\<close>

lemma audio_buffer_capacity_default: "audio_buffer_capacity 16000 512 1 = Some 31"
  by (simp add: audio_buffer_capacity_def py_int_def Let_def)

lemma default_recorder_state: "state default_recorder = ''inactive''"
  by (simp add: default_recorder_def new_recorder_def audio_buffer_capacity_default)

lemma default_recorder_trace: "trace default_recorder = []"
  by (simp add: default_recorder_def new_recorder_def audio_buffer_capacity_default)

text \<open>
  C8. A request to \<^verbatim>\<open>transition_state\<close> for the state the owner is already in returns
  at once: the owner is left as it was, field for field, so its state is unchanged and
  no entry or exit callback has been added to what was fired before.
\<close>

theorem transition_state_same_state_noop:
  assumes "state owner = state_value s"
  shows "transition_state owner s callbacks spinner_enabled ww = owner
         \<and> state (transition_state owner s callbacks spinner_enabled ww) = state_value s
         \<and> trace (transition_state owner s callbacks spinner_enabled ww) = trace owner"
  using assms by (simp add: transition_state_def)

theorem transition_state_same_state_noop_witness:
  "state default_recorder = state_value INACTIVE
   \<and> transition_state default_recorder INACTIVE
        \<lparr>cb_on_vad_detect_start = True, cb_on_vad_detect_stop = True,
         cb_on_wakeword_detection_start = True, cb_on_wakeword_detection_end = True,
         cb_on_transcription_start = True\<rparr> True ''jarvis'' = default_recorder
   \<and> trace (transition_state default_recorder INACTIVE
        \<lparr>cb_on_vad_detect_start = True, cb_on_vad_detect_stop = True,
         cb_on_wakeword_detection_start = True, cb_on_wakeword_detection_end = True,
         cb_on_transcription_start = True\<rparr> True ''jarvis'') = []"
proof -
  have h: "state default_recorder = state_value INACTIVE"
    by (simp add: default_recorder_state)
  show ?thesis
    using h transition_state_same_state_noop [OF h] by (simp add: default_recorder_trace)
qed

text \<open>
  C1, as the specification states it: a request with a string that is none of the five
  state names leaves the state field as it was. It does not: from the initial state
  \<^verbatim>\<open>inactive\<close>, the request \<^verbatim>\<open>_set_state("paused")\<close> stores \<^verbatim>\<open>paused\<close>.
\<close>

theorem set_state_unknown_overwrites_counterexample:
  "RecorderState_of ''paused'' = None
   \<and> state default_recorder = ''inactive''
   \<and> state (set_state default_recorder ''paused'') = ''paused''
   \<and> state (set_state default_recorder ''paused'') \<noteq> state default_recorder"
  by (simp add: RecorderState_of_def set_state_def log_def default_recorder_state)

text \<open>
  C1, amended. A request with a string that is none of the five state names does not
  crash and fires no callback: \<^verbatim>\<open>_set_state\<close> returns the recorder with one warning
  appended to the log and the requested string stored as the state; every other field
  is as before.
\<close>

theorem set_state_unknown_logs_and_stores:
  assumes "RecorderState_of new_state = None"
  shows "set_state r new_state =
           r\<lparr>state := new_state,
             trace := trace r @
               [Log WARNING ''Unknown state %s, keeping legacy behaviour'' [new_state]]\<rparr>"
  using assms by (simp add: set_state_def log_def)

theorem set_state_unknown_logs_and_stores_witness:
  "RecorderState_of ''paused'' = None
   \<and> set_state default_recorder ''paused'' =
       default_recorder\<lparr>state := ''paused'',
         trace := [Log WARNING ''Unknown state %s, keeping legacy behaviour'' [''paused'']]\<rparr>"
proof -
  have h: "RecorderState_of ''paused'' = None"
    by (simp add: RecorderState_of_def)
  show ?thesis
    using h set_state_unknown_logs_and_stores [OF h, of default_recorder]
    by (simp add: default_recorder_trace)
qed

section \<open>Voice activity gates\<close>

lemma frames_loop_unfold:
  "frames_loop model c a n i k =
     (if i < n then
        (if model (take 320 (drop (i * 320) c)) then
           (if \<not> a then True else frames_loop model c a n (Suc i) (Suc k))
         else frames_loop model c a n (Suc i) k)
      else if a then k = n else False)"
  by (subst frames_loop.simps) (simp add: frame_length_def Let_def mult.commute)

lemma frames_loop_any:
  "frames_loop model c False n i k = (\<exists>j. i \<le> j \<and> j < n \<and> model (take 320 (drop (j * 320) c)))"
proof (induction "n - i" arbitrary: i k)
  case 0
  then show ?case by (subst frames_loop_unfold) auto
next
  case (Suc d)
  then have lt: "i < n" and d: "d = n - Suc i" by auto
  show ?case
  proof (cases "model (take 320 (drop (i * 320) c))")
    case True
    with lt show ?thesis by (subst frames_loop_unfold) auto
  next
    case False
    have "frames_loop model c False n i k = frames_loop model c False n (Suc i) k"
      using False lt by (subst frames_loop_unfold) simp
    also have "\<dots> = (\<exists>j. Suc i \<le> j \<and> j < n \<and> model (take 320 (drop (j * 320) c)))"
      using Suc.hyps(1) [OF d] .
    also have "\<dots> = (\<exists>j. i \<le> j \<and> j < n \<and> model (take 320 (drop (j * 320) c)))"
      using False by (metis Suc_leD Suc_leI le_neq_implies_less)
    finally show ?thesis .
  qed
qed

lemma frames_loop_all:
  "k \<le> i \<Longrightarrow> i \<le> n \<Longrightarrow> frames_loop model c True n i k =
     (k = i \<and> (\<forall>j. i \<le> j \<and> j < n \<longrightarrow> model (take 320 (drop (j * 320) c))))"
proof (induction "n - i" arbitrary: i k)
  case 0
  then show ?case by (subst frames_loop_unfold) auto
next
  case (Suc d)
  then have lt: "i < n" and d: "d = n - Suc i" by auto
  show ?case
  proof (cases "model (take 320 (drop (i * 320) c))")
    case True
    have "frames_loop model c True n i k = frames_loop model c True n (Suc i) (Suc k)"
      using True lt by (subst frames_loop_unfold) simp
    also have "\<dots> = (Suc k = Suc i \<and> (\<forall>j. Suc i \<le> j \<and> j < n \<longrightarrow> model (take 320 (drop (j * 320) c))))"
      using Suc.hyps(1) [OF d] Suc.prems lt by simp
    also have "\<dots> = (k = i \<and> (\<forall>j. i \<le> j \<and> j < n \<longrightarrow> model (take 320 (drop (j * 320) c))))"
      using True by (metis Suc_leD Suc_leI le_neq_implies_less nat.inject)
    finally show ?thesis .
  next
    case False
    have "frames_loop model c True n i k = frames_loop model c True n (Suc i) k"
      using False lt by (subst frames_loop_unfold) simp
    also have "\<dots> = (k = Suc i \<and> (\<forall>j. Suc i \<le> j \<and> j < n \<longrightarrow> model (take 320 (drop (j * 320) c))))"
      using Suc.hyps(1) [OF d] Suc.prems lt by simp
    also have "\<dots> = False"
      using Suc.prems by auto
    finally show ?thesis using False lt by auto
  qed
qed

lemma list_ex_frames_10ms:
  "list_ex model (frames_10ms c) = (\<exists>j. j < length c div 320 \<and> model (take 320 (drop (j * 320) c)))"
  by (auto simp: frames_10ms_def list_ex_iff)

lemma list_all_frames_10ms:
  "list_all model (frames_10ms c) = (\<forall>j. j < length c div 320 \<longrightarrow> model (take 320 (drop (j * 320) c)))"
  by (auto simp: frames_10ms_def list_all_iff)

lemma frames_10ms_Nil: "(frames_10ms c = []) = (length c div 320 = 0)"
  by (simp add: frames_10ms_def)

text \<open>
  C6, amended. The fast gate brings the chunk to 16 kHz, cuts it into its consecutive
  complete 10 ms frames (320 bytes each) and asks the frame model about them. In "any"
  mode it answers true exactly when some frame is flagged as speech. In "all" mode it
  answers true exactly when there is at least one complete frame and every frame is
  flagged. It raises exactly when bringing the chunk to 16 kHz raises.
\<close>

theorem webrtc_is_speech_any_all:
  "webrtc_is_speech resample model chunk rate all_frames_must_be_true =
     map_option
       (\<lambda>c. if all_frames_must_be_true
            then frames_10ms c \<noteq> [] \<and> list_all model (frames_10ms c)
            else list_ex model (frames_10ms c))
       (chunk_16k resample chunk rate)"
proof (cases "chunk_16k resample chunk rate")
  case None
  then show ?thesis by (simp add: webrtc_is_speech_def)
next
  case (Some c)
  show ?thesis
  proof (cases "length c div 320 = 0")
    case True
    then show ?thesis
      using Some
      by (simp add: webrtc_is_speech_def frame_length_def frames_10ms_Nil
          list_ex_frames_10ms)
  next
    case False
    have a: "frames_loop model c True (length c div 320) 0 0 =
               (\<forall>j<length c div 320. model (take 320 (drop (j * 320) c)))"
      using frames_loop_all [of 0 0 "length c div 320" model c] by simp
    have b: "frames_loop model c False (length c div 320) 0 0 =
               (\<exists>j<length c div 320. model (take 320 (drop (j * 320) c)))"
      by (simp add: frames_loop_any)
    show ?thesis
    proof (cases all_frames_must_be_true)
      case True
      then show ?thesis
        using Some False a
        by (simp add: webrtc_is_speech_def frame_length_def frames_10ms_Nil
            list_all_frames_10ms)
    next
      case nall: False
      then show ?thesis
        using Some False b
        by (simp add: webrtc_is_speech_def frame_length_def list_ex_frames_10ms)
    qed
  qed
qed

lemma upt_two: "[0..<2] = [0, Suc 0]"
  by (simp add: upt_rec)

theorem webrtc_is_speech_any_all_witness:
  "webrtc_is_speech (\<lambda>pcm rate. None) (\<lambda>frame. hd frame = 1)
       (replicate 320 0 @ replicate 320 1) 16000 False = Some True
   \<and> webrtc_is_speech (\<lambda>pcm rate. None) (\<lambda>frame. hd frame = 1)
       (replicate 320 0 @ replicate 320 1) 16000 True = Some False"
  using webrtc_is_speech_any_all [of "\<lambda>pcm rate. None" "\<lambda>frame. hd frame = 1"
      "replicate 320 0 @ replicate 320 1" 16000 False]
    webrtc_is_speech_any_all [of "\<lambda>pcm rate. None" "\<lambda>frame. hd frame = 1"
      "replicate 320 0 @ replicate 320 1" 16000 True]
  by (simp add: chunk_16k_def frames_10ms_def upt_two)

text \<open>
  C6, as the specification states it: in "all" mode the answer is true if and only if
  every frame is flagged. On the empty chunk every frame is flagged (there is none),
  and the gate answers false.
\<close>

theorem webrtc_all_mode_empty_counterexample:
  "chunk_16k (\<lambda>pcm rate. None) [] 16000 = Some []
   \<and> list_all (\<lambda>frame. True) (frames_10ms [])
   \<and> webrtc_is_speech (\<lambda>pcm rate. None) (\<lambda>frame. True) [] 16000 True = Some False"
  by (simp add: webrtc_is_speech_def chunk_16k_def frame_length_def frames_10ms_def)

text \<open>
  C10. A chunk that, at 16 kHz, is shorter than one 10 ms frame (fewer than 320 bytes)
  makes the fast gate answer false, in "any" mode and in "all" mode alike.
\<close>

theorem webrtc_is_speech_short_chunk:
  assumes "chunk_16k resample chunk rate = Some c" and "length c < 320"
  shows "webrtc_is_speech resample model chunk rate all_frames_must_be_true = Some False"
  using assms by (simp add: webrtc_is_speech_def frame_length_def)

theorem webrtc_is_speech_short_chunk_witness:
  "chunk_16k (\<lambda>pcm rate. None) (replicate 319 7) 16000 = Some (replicate 319 7)
   \<and> length (replicate 319 (7 :: 8 word)) < 320
   \<and> webrtc_is_speech (\<lambda>pcm rate. None) (\<lambda>frame. True) (replicate 319 7) 16000 True
       = Some False
   \<and> webrtc_is_speech (\<lambda>pcm rate. None) (\<lambda>frame. True) (replicate 319 7) 16000 False
       = Some False"
proof -
  have h1: "chunk_16k (\<lambda>pcm rate. None) (replicate 319 7) 16000 = Some (replicate 319 7)"
    by (simp add: chunk_16k_def)
  have h2: "length (replicate 319 (7 :: 8 word)) < 320" by simp
  show ?thesis
    using h1 h2 webrtc_is_speech_short_chunk [OF h1 h2, of "\<lambda>frame. True" True]
      webrtc_is_speech_short_chunk [OF h1 h2, of "\<lambda>frame. True" False]
    by simp
qed





section \<open>Start and stop guards\<close>

text \<open>
  C5. A call to \<^verbatim>\<open>stop()\<close> made less than \<^verbatim>\<open>min_length_of_recording\<close> seconds after
  the start has no effect on the recorder: it returns the recorder it was given with
  one log line added and nothing else changed, so \<^verbatim>\<open>is_recording\<close>, the state, the
  frames, the backdate parameters, the events and the timestamps are as before, and no
  stop callback is among what the call appended to the trace.
\<close>

theorem stop_too_soon_no_effect:
  assumes "now - recording_start_time r < min_length_of_recording r"
  shows "stop r now backdate_stop backdate_resume =
           r\<lparr>trace := trace r @
               [Log INFO ''Attempted to stop recording too soon after starting.'' []]\<rparr>
         \<and> is_recording (stop r now backdate_stop backdate_resume) = is_recording r
         \<and> state (stop r now backdate_stop backdate_resume) = state r
         \<and> frames (stop r now backdate_stop backdate_resume) = frames r
         \<and> Cb_recording_stop \<notin>
             set (drop (length (trace r)) (trace (stop r now backdate_stop backdate_resume)))"
  using assms by (simp add: stop_def log_def)

lemma started_fields:
  "is_recording (start default_recorder 10 None)
   \<and> state (start default_recorder 10 None) = ''recording''
   \<and> recording_start_time (start default_recorder 10 None) = 10
   \<and> min_length_of_recording (start default_recorder 10 None) = 1 / 2"
  by (simp add: start_def Let_def default_recorder_def new_recorder_def
      audio_buffer_capacity_default fire_def
      state_set_state_value [of _ RECORDING, simplified])

theorem stop_too_soon_no_effect_witness:
  "51 / 5 - recording_start_time (start default_recorder 10 None)
     < min_length_of_recording (start default_recorder 10 None)
   \<and> is_recording (stop (start default_recorder 10 None) (51 / 5) 0 0)
   \<and> state (stop (start default_recorder 10 None) (51 / 5) 0 0) = ''recording''"
proof -
  have h: "51 / 5 - recording_start_time (start default_recorder 10 None)
             < min_length_of_recording (start default_recorder 10 None)"
    by (simp add: started_fields)
  show ?thesis
    using h stop_too_soon_no_effect [OF h, of 0 0] by (simp add: started_fields)
qed

section \<open>Wake-word stripping\<close>

text \<open>
  C2, at a failing input. With one sample to strip and a first chunk of four samples,
  the loop slices one sample off the first chunk, finds its counter unchanged, slices
  again, and goes on until the whole chunk is gone: four samples are removed, not one,
  and what is left is not the utterance without its first sample.
\<close>

theorem strip_wakeword_loop_overstrips:
  "strip_wakeword_loop 1 [[1, 0, 2, 0, 3, 0, 4, 0], [5, 0, 6, 0]] = (0, [[5, 0, 6, 0]])
   \<and> concat (snd (strip_wakeword_loop 1 [[1, 0, 2, 0, 3, 0, 4, 0], [5, 0, 6, 0]]))
       \<noteq> drop (2 * 1) (concat [[1, 0, 2, 0, 3, 0, 4, 0], [5, 0, 6, 0 :: 8 word]])"
  by (simp add: strip_wakeword_loop.simps Let_def)

section \<open>Submission to the transcription engine\<close>

lemma add_padding_ok:
  "0 \<le> sample_rate r \<Longrightarrow>
   add_padding_to_audio r a 1 =
     Some (replicate (nat (sample_rate r)) 0 @ a @ replicate (nat (sample_rate r)) 0)"
  by (simp add: add_padding_to_audio_def Let_def)

lemma transcribe_submit_sent:
  assumes "transcribe_count r = 0" "0 \<le> sample_rate r"
  shows "\<exists>r'. transcribe_submit r = Some r'
           \<and> sent r' = sent r @
                [(replicate (nat (sample_rate r)) 0 @ audio r @ replicate (nat (sample_rate r)) 0,
                  language r)]"
  using assms
  by (simp add: transcribe_submit_def Let_def add_padding_to_audio_def log_def)

lemma transcribe_submit_nosend:
  assumes "transcribe_count r \<noteq> 0"
  shows "\<exists>r'. transcribe_submit r = Some r' \<and> sent r' = sent r"
  using assms by (simp add: transcribe_submit_def Let_def)

lemma early_transcribe_sent:
  assumes "early_transcribe r = Some r'"
  shows "\<exists>pcm. frombuffer_int16 (concat (frames r)) = Some pcm
           \<and> sent r' = sent r @
                [(replicate (nat (sample_rate r)) 0 @ normalize_int16 pcm
                    @ replicate (nat (sample_rate r)) 0, language r)]
           \<and> frames r' = frames r"
  using assms
  by (auto simp: early_transcribe_def Let_def add_padding_to_audio_def
      split: option.splits if_splits)

lemma early_transcribe_total:
  assumes "frombuffer_int16 (concat (frames r)) = Some pcm" "0 \<le> sample_rate r"
  shows "\<exists>r'. early_transcribe r = Some r'"
  using assms by (simp add: early_transcribe_def Let_def add_padding_to_audio_def)

lemma stop_sent [simp]: "sent (stop r now a b) = sent r"
  by (simp add: stop_def Let_def)

lemma start_sent [simp]: "sent (start r now f) = sent r"
  by (simp add: start_def Let_def)

lemma is_silero_speech_sent:
  "is_silero_speech e r c = Some (r', b) \<Longrightarrow>
     sent r' = sent r \<and> frames r' = frames r \<and> language r' = language r
     \<and> sample_rate r' = sample_rate r"
  by (auto simp: is_silero_speech_def)

lemma is_webrtc_speech_sent:
  "is_webrtc_speech e r c a = Some (r', b) \<Longrightarrow>
     sent r' = sent r \<and> frames r' = frames r \<and> language r' = language r
     \<and> sample_rate r' = sample_rate r"
  by (auto simp: is_webrtc_speech_def)

lemma check_voice_activity_sent:
  "check_voice_activity e r c = Some r' \<Longrightarrow> sent r' = sent r"
  by (auto simp: check_voice_activity_def is_webrtc_speech_def is_silero_speech_def
      split: option.splits if_splits)

lemma settle_flags_keeps [simp]:
  "sent (settle_flags l r inp) = sent r"
  "is_recording (settle_flags l r inp) = is_recording r"
  "frames (settle_flags l r inp) = frames r"
  "audio_buffer (settle_flags l r inp) = audio_buffer r"
  "audio_buffer_maxlen (settle_flags l r inp) = audio_buffer_maxlen r"
  "speech_end_silence_start (settle_flags l r inp) = speech_end_silence_start r"
  by (simp_all add: settle_flags_def Let_def)

lemma step_tail_sent [simp]: "sent (snd (step_tail l r f inp)) = sent r"
  by (simp add: step_tail_def Let_def)

lemma wakeword_stage_sent [simp]: "sent (snd (snd (wakeword_stage l r inp))) = sent r"
  by (simp add: wakeword_stage_def Let_def)

lemma voice_stage_sent: "voice_stage e r p inp = Some r' \<Longrightarrow> sent r' = sent r"
  by (auto simp: voice_stage_def Let_def check_voice_activity_sent split: if_splits)

lemma not_recording_branch_sent:
  "not_recording_branch e l r inp = Some (l', r') \<Longrightarrow> sent r' = sent r"
  by (cases "wakeword_stage l r inp")
     (auto simp: not_recording_branch_def split: option.splits dest!: voice_stage_sent,
      metis wakeword_stage_sent snd_conv)


lemma strip_wakeword_keeps:
  "sent (snd (strip_wakeword l r)) = sent r
   \<and> language (snd (strip_wakeword l r)) = language r
   \<and> sample_rate (snd (strip_wakeword l r)) = sample_rate r
   \<and> is_recording (snd (strip_wakeword l r)) = is_recording r
   \<and> audio_buffer (snd (strip_wakeword l r)) = audio_buffer r"
  by (simp add: strip_wakeword_def split: option.splits)

lemma strip_wakeword_locals:
  "snd (strip_wakeword (l\<lparr>time_since_last_buffer_message := x\<rparr>) r) = snd (strip_wakeword l r)"
  by (simp add: strip_wakeword_def split: option.splits)

lemma on_silence_sent:
  assumes "on_silence r now = Some r'"
  shows "sent r' = sent r
         \<or> (\<exists>pcm. frombuffer_int16 (concat (frames r)) = Some pcm
               \<and> sent r' = sent r @
                    [(replicate (nat (sample_rate r)) 0 @ normalize_int16 pcm
                        @ replicate (nat (sample_rate r)) 0, language r)])"
proof -
  define r1 where "r1 = (if speech_end_silence_start r = 0
                   \<and> now - recording_start_time r > min_length_of_recording r
                then r\<lparr>speech_end_silence_start := now\<rparr> else r)"
  have k: "sent r1 = sent r" "frames r1 = frames r" "language r1 = language r"
    "sample_rate r1 = sample_rate r"
    by (simp_all add: r1_def)
  have "on_silence r now = early_transcribe r1 \<or> on_silence r now = Some r1"
    by (simp add: on_silence_def Let_def r1_def)
  then show ?thesis
  proof
    assume "on_silence r now = early_transcribe r1"
    then have "early_transcribe r1 = Some r'" using assms by simp
    from early_transcribe_sent [OF this] show ?thesis using k by auto
  next
    assume "on_silence r now = Some r1"
    then show ?thesis using assms k by simp
  qed
qed

lemma on_speech_sent [simp]: "sent (on_speech r) = sent r"
  by (simp add: on_speech_def)

lemma recording_branch_sent:
  assumes "recording_branch e l r inp = Some (l', r', f)"
  shows "sent r' = sent r
         \<or> (\<exists>pcm. frombuffer_int16 (concat (frames (snd (strip_wakeword l r)))) = Some pcm
               \<and> sent r' = sent r @
                    [(replicate (nat (sample_rate r)) 0 @ normalize_int16 pcm
                        @ replicate (nat (sample_rate r)) 0, language r)])"
proof -
  obtain l1 r1 where s: "strip_wakeword l r = (l1, r1)" by (cases "strip_wakeword l r")
  have k1: "sent r1 = sent r" "language r1 = language r" "sample_rate r1 = sample_rate r"
    using strip_wakeword_keeps [of l r] s by simp_all
  show ?thesis
  proof (cases "stop_recording_on_voice_deactivity r1")
    case False
    then show ?thesis using assms s k1 by (simp add: recording_branch_def)
  next
    case True
    obtain r2 sp where g: "(if silero_deactivity_detection r1
                 then is_silero_speech e r1 (in_data inp)
                 else is_webrtc_speech e r1 (in_data inp) True) = Some (r2, sp)"
      using assms s True by (auto simp: recording_branch_def split: option.splits)
    have k2: "sent r2 = sent r1" "frames r2 = frames r1" "language r2 = language r1"
      "sample_rate r2 = sample_rate r1"
      using g is_silero_speech_sent is_webrtc_speech_sent
      by (auto split: if_splits) 
    obtain r3 where h: "(if \<not> sp then on_silence r2 (in_now inp) else Some (on_speech r2))
                        = Some r3"
      using assms s True g by (auto simp: recording_branch_def split: option.splits)
    have r3: "sent r3 = sent r2
         \<or> (\<exists>pcm. frombuffer_int16 (concat (frames r2)) = Some pcm
               \<and> sent r3 = sent r2 @
                    [(replicate (nat (sample_rate r2)) 0 @ normalize_int16 pcm
                        @ replicate (nat (sample_rate r2)) 0, language r2)])"
      using h on_silence_sent [of r2 "in_now inp" r3] by (auto split: if_splits)
    have "sent r' = sent r3"
      using assms s True g h
      by (auto simp: recording_branch_def Let_def split: if_splits)
    then show ?thesis using r3 k2 k1 s by auto
  qed
qed

lemma recording_worker_step_sent:
  assumes "recording_worker_step e (l, r) inp = Some (l', r')"
  shows "sent r' = sent r
         \<or> (\<exists>pcm. frombuffer_int16 (concat (frames (snd (strip_wakeword l r)))) = Some pcm
               \<and> sent r' = sent r @
                    [(replicate (nat (sample_rate r)) 0 @ normalize_int16 pcm
                        @ replicate (nat (sample_rate r)) 0, language r)])"
proof (cases "is_recording r")
  case False
  then obtain l1 r1 where n: "not_recording_branch e
      (buffer_message_tick l inp) r inp = Some (l1, r1)"
    and t: "step_tail l1 r1 False inp = (l', r')"
    using assms by (auto simp: recording_worker_step_def Let_def split: option.splits)
  have "sent r' = sent r1" using t step_tail_sent [of l1 r1 False inp] by simp
  then show ?thesis using not_recording_branch_sent [OF n] by simp
next
  case True
  then obtain l1 r1 f where n: "recording_branch e
      (buffer_message_tick l inp) r inp = Some (l1, r1, f)"
    and t: "step_tail l1 r1 f inp = (l', r')"
    using assms by (auto simp: recording_worker_step_def Let_def split: option.splits)
  have "sent r' = sent r1" using t step_tail_sent [of l1 r1 f inp] by simp
  then show ?thesis
    using recording_branch_sent [OF n]
    by (auto simp: strip_wakeword_locals buffer_message_tick_def split: if_splits)
qed

lemma silent_step:
  "\<exists>l' r'. recording_worker_step
       \<lparr>eng_resample = (\<lambda>pcm rate. None), eng_webrtc = (\<lambda>frame. False),
        eng_silero = (\<lambda>xs. None)\<rparr>
       (initial_locals, silent_recorder)
       \<lparr>in_data = [], in_now = 53 / 10, in_wakeword_index = - 1\<rparr> = Some (l', r')
     \<and> sent r' = [(replicate 16000 0 @ [1 / 2] @ replicate 16000 0, ''auto'')]"
  by (simp add: recording_worker_step_def recording_branch_def strip_wakeword_def
      initial_locals_def silent_recorder_def default_recorder_def new_recorder_def
      audio_buffer_capacity_default is_webrtc_speech_def webrtc_is_speech_def chunk_16k_def
      frame_length_def on_silence_def early_transcribe_def add_padding_to_audio_def
      normalize_int16_def word_cat_eq step_tail_def settle_flags_def py_int_def
      buffer_message_tick_def Let_def)

text \<open>
  C9. Whatever is handed to the transcription engine is the utterance between two runs
  of \<open>int(sample_rate * 1.0)\<close> zeros. On the normal path, \<^verbatim>\<open>transcribe\<close> with no
  request in flight sends the recorder's assembled audio so padded, with the language.
  On the early path, a worker iteration either sends nothing or sends the frames
  accumulated so far (after any wake-word stripping), decoded and normalised, so
  padded. The sample rate is not negative.
\<close>

theorem submitted_audio_is_padded:
  assumes "0 \<le> sample_rate r"
  shows "(transcribe_count r = 0 \<longrightarrow>
            (\<exists>r'. transcribe_submit r = Some r'
               \<and> sent r' = sent r @
                    [(replicate (nat (py_int (of_int (sample_rate r) * 1))) 0 @ audio r
                        @ replicate (nat (py_int (of_int (sample_rate r) * 1))) 0,
                      language r)]))
         \<and> (recording_worker_step e (l, r) inp = Some (l', r') \<longrightarrow>
              sent r' = sent r
              \<or> (\<exists>pcm. frombuffer_int16 (concat (frames (snd (strip_wakeword l r)))) = Some pcm
                    \<and> sent r' = sent r @
                         [(replicate (nat (py_int (of_int (sample_rate r) * 1))) 0
                             @ normalize_int16 pcm
                             @ replicate (nat (py_int (of_int (sample_rate r) * 1))) 0,
                           language r)]))"
  using assms transcribe_submit_sent [of r] recording_worker_step_sent [of e l r inp l' r']
  by simp

theorem submitted_audio_is_padded_witness:
  "0 \<le> sample_rate silent_recorder
   \<and> transcribe_count silent_recorder = 0
   \<and> map_option sent (transcribe_submit silent_recorder) =
       Some [(replicate 16000 0 @ replicate 16000 0, ''auto'')]
   \<and> map_option (sent \<circ> snd)
        (recording_worker_step
           \<lparr>eng_resample = (\<lambda>pcm rate. None), eng_webrtc = (\<lambda>frame. False),
            eng_silero = (\<lambda>xs. None)\<rparr>
           (initial_locals, silent_recorder)
           \<lparr>in_data = [], in_now = 53 / 10, in_wakeword_index = - 1\<rparr>) =
       Some [(replicate 16000 0 @ [1 / 2] @ replicate 16000 0, ''auto'')]"
proof -
  have f: "sample_rate silent_recorder = 16000" "transcribe_count silent_recorder = 0"
    "sent silent_recorder = []" "audio silent_recorder = []"
    "language silent_recorder = ''auto''"
    by (simp_all add: silent_recorder_def default_recorder_def new_recorder_def
        audio_buffer_capacity_default)
  have h: "0 \<le> sample_rate silent_recorder" by (simp add: f)
  show ?thesis
    using h silent_step
      submitted_audio_is_padded [OF h,
        of "\<lparr>eng_resample = (\<lambda>pcm rate. None), eng_webrtc = (\<lambda>frame. False),
            eng_silero = (\<lambda>xs. None)\<rparr>" initial_locals
           "\<lparr>in_data = [], in_now = 53 / 10, in_wakeword_index = - 1\<rparr>"]
    by (auto simp: f py_int_def)
qed

section \<open>Backdating in \<^verbatim>\<open>wait_audio\<close>\<close>

lemma ucast_word_cat_lo: "(ucast (word_cat (hi :: 8 word) (lo :: 8 word) :: 16 word) :: 8 word) = lo"
  by (rule bit_word_eqI) (auto simp: bit_simps)

lemma ucast_word_cat_hi:
  "(ucast (drop_bit 8 (word_cat (hi :: 8 word) (lo :: 8 word) :: 16 word)) :: 8 word) = hi"
  by (rule bit_word_eqI) (auto simp: bit_simps)

lemma word_cat_split16:
  "(word_cat (ucast (drop_bit 8 w) :: 8 word) (ucast w :: 8 word) :: 16 word) = (w :: 16 word)"
  by (rule bit_word_eqI) (auto simp: bit_simps)

lemma tobytes_frombuffer:
  "frombuffer_int16 bs = Some ws \<Longrightarrow> tobytes ws = bs"
  by (induction bs arbitrary: ws rule: frombuffer_int16.induct)
     (auto simp: ucast_word_cat_lo ucast_word_cat_hi)

lemma frombuffer_tobytes: "frombuffer_int16 (tobytes ws) = Some ws"
  by (induction ws) (auto simp: word_cat_split16)

lemma length_frombuffer:
  "frombuffer_int16 bs = Some ws \<Longrightarrow> length bs = 2 * length ws"
  by (induction bs arbitrary: ws rule: frombuffer_int16.induct) auto

lemma length_tobytes [simp]: "length (tobytes ws) = 2 * length ws"
  by (induction ws) auto

lemma denormalize_one:
  "(word_of_int (py_int (of_int (sint (w :: 16 word)) / 32768 * 32768)) :: 16 word) = w"
proof -
  define k where "k = sint w"
  have "(of_int k / 32768 * 32768 :: rat) = of_int k" by simp
  then have "py_int (of_int k / 32768 * 32768) = k"
    by (simp only: py_int_of_int)
  moreover have "(word_of_int k :: 16 word) = w"
    unfolding k_def by (rule bit_word_eqI) (auto simp: bit_simps)
  ultimately show ?thesis unfolding k_def by (simp del: of_int_sint)
qed

lemma denormalize_normalize [simp]: "denormalize_int16 (normalize_int16 ws) = ws"
proof -
  have "(\<lambda>x. word_of_int (py_int (x * 32768)) :: 16 word) \<circ> (\<lambda>w. of_int (sint w) / 32768) = id"
    using denormalize_one by (auto simp: fun_eq_iff simp del: of_int_sint)
  then show ?thesis
    by (simp add: denormalize_int16_def normalize_int16_def del: of_int_sint)
qed




lemma split_frames_unfold:
  "split_frames fb i =
     (if i < length fb then take 2048 (drop i fb) # split_frames fb (i + 2048) else [])"
  by (subst split_frames.simps) (simp add: FRAME_SIZE_def Let_def)

lemma split_frames_Nil [simp]: "split_frames [] i = []"
  by (subst split_frames_unfold) simp












section \<open>Pre-roll\<close>



















lemma on_speech_keeps [simp]:
  "is_recording (on_speech r) = is_recording r" "frames (on_speech r) = frames r"
  by (simp_all add: on_speech_def)

lemma stop_frames [simp]: "frames (stop r now a b) = frames r"
  by (simp add: stop_def Let_def)

















lemma listening_cfg_silence [simp]:
  "listening_cfg (r\<lparr>speech_end_silence_start := x\<rparr>) = listening_cfg r"
  "is_voice_active (r\<lparr>speech_end_silence_start := x\<rparr>) = is_voice_active r"
  by (simp_all add: listening_cfg_def is_voice_active_def)














end
